theory Spec2Isabelle
  imports Main
begin

section \<open>JavaScript values, truthiness and template literals\<close>

text \<open>
  The components read their props as JavaScript values. Only the kinds of value the
  modelled code can receive for the props it reads are kept: \<open>undefined\<close>, \<open>null\<close>,
  strings and numbers. Numbers are modelled as integers: the props concerned are account
  ids, player configuration ids and start times in whole seconds.
\<close>

datatype jsval = JUndefined | JNull | JStr string | JNum int

text \<open>\<open>ToBoolean\<close>: what \<open>if (v)\<close>, \<open>v || w\<close> and \<open>v ? a : b\<close> test.\<close>

fun truthy :: "jsval \<Rightarrow> bool" where
  "truthy JUndefined = False"
| "truthy JNull = False"
| "truthy (JStr s) = (s \<noteq> [])"
| "truthy (JNum n) = (n \<noteq> 0)"

definition digit_char :: "nat \<Rightarrow> char" where
  "digit_char d =
     (if d = 0 then CHR ''0'' else if d = 1 then CHR ''1'' else if d = 2 then CHR ''2''
      else if d = 3 then CHR ''3'' else if d = 4 then CHR ''4'' else if d = 5 then CHR ''5''
      else if d = 6 then CHR ''6'' else if d = 7 then CHR ''7'' else if d = 8 then CHR ''8''
      else CHR ''9'')"

function string_of_nat :: "nat \<Rightarrow> string" where
  "string_of_nat n =
     (if n < 10 then [digit_char n] else string_of_nat (n div 10) @ [digit_char (n mod 10)])"
  by pat_completeness auto
termination
  by (relation "measure (\<lambda>n. n)") auto

definition string_of_int :: "int \<Rightarrow> string" where
  "string_of_int i = (if i < 0 then CHR ''-'' # string_of_nat (nat (- i)) else string_of_nat (nat i))"

text \<open>\<open>ToString\<close>, as applied to \<open>${v}\<close> inside a template literal.\<close>

fun template :: "jsval \<Rightarrow> string" where
  "template JUndefined = ''undefined''"
| "template JNull = ''null''"
| "template (JStr s) = s"
| "template (JNum n) = string_of_int n"

section \<open>Configuration props shared by the components\<close>

record kaltura_props =
  kalturaServiceUrl :: jsval
  partnerId :: jsval
  uiConfId :: jsval

section \<open>Player.js: the vendor script URL\<close>

definition DEFAULT_KALTURA_URL :: string where
  "DEFAULT_KALTURA_URL = ''https://cdnapi-ev.kaltura.com''"

text \<open>
  \<^verbatim>\<open>props.kalturaServiceUrl || props.kalturaServiceUrl === "" ? DEFAULT_KALTURA_URL : props.kalturaServiceUrl\<close>
  The conditional operator binds weaker than \<open>||\<close>, so the test is the whole disjunction.
\<close>

definition effectiveServiceUrl :: "kaltura_props \<Rightarrow> jsval" where
  "effectiveServiceUrl props =
     (if truthy (kalturaServiceUrl props) \<or> kalturaServiceUrl props = JStr ''''
      then JStr DEFAULT_KALTURA_URL
      else kalturaServiceUrl props)"

definition scriptUrl :: "kaltura_props \<Rightarrow> string" where
  "scriptUrl props =
     template (effectiveServiceUrl props) @ ''/p/'' @ template (partnerId props)
       @ ''/embedPlaykitJs/uiconf_id/'' @ template (uiConfId props)"

section \<open>SearchResultsWithGallery: decorating the search response\<close>

text \<open>
  One element of \<open>data.ref\<close> as the search API returns it (the \<open>score\<close> field is a float
  that no component reads; it is left out).
\<close>

record api_ref =
  video_transcript_segment :: string
  sentence_from_model_answer :: string
  entry_id :: jsval
  segment_title :: string
  time :: jsval

text \<open>The same element after the response handler has added its two fields.\<close>

record gallery_ref = api_ref +
  entry_thumbnail :: string
  uniqueGuiId :: string

definition thumbnailUrl :: "kaltura_props \<Rightarrow> 'a api_ref_scheme \<Rightarrow> string" where
  "thumbnailUrl props r =
     template (kalturaServiceUrl props) @ ''/p/'' @ template (partnerId props)
       @ ''/thumbnail/entry_id/'' @ template (entry_id r) @ ''/vid_sec/'' @ template (time r)"

definition decorate :: "kaltura_props \<Rightarrow> string \<Rightarrow> api_ref \<Rightarrow> gallery_ref" where
  "decorate props uuid r =
     \<lparr> video_transcript_segment = video_transcript_segment r,
       sentence_from_model_answer = sentence_from_model_answer r,
       entry_id = entry_id r,
       segment_title = segment_title r,
       time = time r,
       entry_thumbnail = thumbnailUrl props r,
       uniqueGuiId = uuid \<rparr>"

text \<open>
  \<^verbatim>\<open>data.ref = data.ref.map((ref) => { ...; ref.uniqueGuiId = uuidv4(); return ref; })\<close>
  \<open>uuidv4\<close> is the random generator of the \<open>uuid\<close> package: \<open>uuidv4 k\<close> stands for the
  value its \<open>k\<close>-th call returns while the response is processed.
\<close>

definition processRefs :: "kaltura_props \<Rightarrow> (nat \<Rightarrow> string) \<Rightarrow> api_ref list \<Rightarrow> gallery_ref list" where
  "processRefs props uuidv4 refs =
     map (\<lambda>(k, r). decorate props (uuidv4 k) r) (enumerate 0 refs)"

section \<open>Refs, vendor player calls and effects\<close>

text \<open>
  The imperative handle a Player publishes through its forwarded ref. Its two methods
  close over the \<open>playerInstance\<close> state of the render that created the handle; vendor
  player instances and DOM elements are named by numbers.
\<close>

datatype player_handle = PlayerHandle (handle_playerInstance: "nat option")

text \<open>
  \<open>React.createRef()\<close> is a fresh object \<open>{ current: null }\<close>. React writes its
  \<open>current\<close> field when the element or handle it is attached to mounts, changes or
  unmounts, and every closure holding the object sees the new value. So ref objects are
  named by numbers, and a store gives the \<open>current\<close> of each: of the refs handed to
  Players (a handle) and of those handed to the container elements (a DOM element);
  \<open>None\<close> is \<open>null\<close>.
\<close>

record ref_store =
  playerCurrent :: "nat \<Rightarrow> player_handle option"
  containerCurrent :: "nat \<Rightarrow> nat option"

datatype vendor_call = SetCurrentTime int | Play | Pause | Destroy | LoadMedia jsval

text \<open>
  The React state of the gallery (its five \<open>useState\<close> cells). The two ref tables map an
  identifier to the ref object created for it.
\<close>

record gallery_state =
  hoverVideoId :: "int option"
  playerRefs :: "string \<rightharpoonup> nat"
  containerRefs :: "string \<rightharpoonup> nat"
  playingUniqueGuiId :: "string option"
  mouseLeaveTimeout :: "nat option"

text \<open>
  The props the handlers read. \<open>onHover\<close> is called unguarded by the enter timer; the
  gallery is taken to be given one, as SearchResultsWithGallery does, and its calls are
  recorded.
\<close>

record gallery_props =
  data_ref :: "gallery_ref list"
  shouldPlayOnHover :: bool

text \<open>
  What a callback does besides computing: calls on a vendor player instance, DOM calls,
  calls of React state setters, of the \<open>onHover\<close> prop and of the timer functions
  (\<open>SetMouseLeaveTimeout cb delay\<close> is \<open>setMouseLeaveTimeout(setTimeout(cb, delay))\<close>). A
  timer callback is a closure; it is kept as the data it closed over: the props and state
  of the render that created the handler, the identifier and, for the enter timer, the
  index.
\<close>

datatype timer_callback =
    EnterTimer gallery_props gallery_state string int
  | LeaveTimer gallery_props gallery_state string

datatype effect =
    Vendor nat vendor_call
  | ScrollIntoView nat string
  | SetPlayingUniqueGuiId "string option"
  | SetHoverVideoId "int option"
  | OnHover "int option"
  | ClearTimeout nat
  | SetMouseLeaveTimeout timer_callback nat

section \<open>Player.js: the imperative handle\<close>

definition playKalturaPlayer :: "player_handle \<Rightarrow> int option \<Rightarrow> effect list" where
  "playKalturaPlayer h seekTo =
     (case handle_playerInstance h of
        None \<Rightarrow> []
      | Some p \<Rightarrow>
          (case seekTo of None \<Rightarrow> [] | Some t \<Rightarrow> [Vendor p (SetCurrentTime t)]) @ [Vendor p Play])"

definition pauseKalturaPlayer :: "player_handle \<Rightarrow> effect list" where
  "pauseKalturaPlayer h =
     (case handle_playerInstance h of None \<Rightarrow> [] | Some p \<Rightarrow> [Vendor p Pause])"

section \<open>PlayersGallery.js\<close>

definition MOUSE_LEAVE_DELAY :: nat where
  "MOUSE_LEAVE_DELAY = 100"

subsection \<open>Generating the refs\<close>

text \<open>
  \<^verbatim>\<open>data.ref.reduce((acc, ref) => { acc[ref.uniqueGuiId] = React.createRef(); return acc; }, {})\<close>
  The \<open>k\<close>-th call of \<open>createRef\<close> returns the ref object numbered \<open>base + k\<close>.
\<close>

definition generateRefs :: "nat \<Rightarrow> gallery_ref list \<Rightarrow> (string \<rightharpoonup> nat)" where
  "generateRefs base refs =
     foldl (\<lambda>acc (k, r). acc(uniqueGuiId r \<mapsto> base + k)) Map.empty (enumerate 0 refs)"

subsection \<open>Play and pause by identifier\<close>

text \<open>
  \<open>playerRefs[id] && playerRefs[id].current\<close>: the table has a ref object for the
  identifier and its \<open>current\<close> is set. The table is the one the closure saw; \<open>current\<close>
  is read when the call is made.
\<close>

definition playerRefCurrent :: "ref_store \<Rightarrow> gallery_state \<Rightarrow> string \<Rightarrow> player_handle option" where
  "playerRefCurrent store s uid =
     (case playerRefs s uid of None \<Rightarrow> None | Some a \<Rightarrow> playerCurrent store a)"

definition containerRefCurrent :: "ref_store \<Rightarrow> gallery_state \<Rightarrow> string \<Rightarrow> nat option" where
  "containerRefCurrent store s uid =
     (case containerRefs s uid of None \<Rightarrow> None | Some a \<Rightarrow> containerCurrent store a)"

definition playKalturaPlayerByUniqueId ::
    "ref_store \<Rightarrow> gallery_state \<Rightarrow> string \<Rightarrow> int option \<Rightarrow> effect list" where
  "playKalturaPlayerByUniqueId store s uid seekTime =
     (case playerRefCurrent store s uid of
        None \<Rightarrow> []
      | Some h \<Rightarrow>
          playKalturaPlayer h seekTime
          @ [SetPlayingUniqueGuiId (Some uid)]
          @ (case containerRefCurrent store s uid of
               None \<Rightarrow> []
             | Some c \<Rightarrow> [ScrollIntoView c ''smooth'']))"

definition pauseKalturaPlayerByUniqueId :: "ref_store \<Rightarrow> gallery_state \<Rightarrow> string \<Rightarrow> effect list" where
  "pauseKalturaPlayerByUniqueId store s uid =
     (case playerRefCurrent store s uid of
        None \<Rightarrow> []
      | Some h \<Rightarrow>
          pauseKalturaPlayer h
          @ (if playingUniqueGuiId s = Some uid then [SetPlayingUniqueGuiId None] else []))"

subsection \<open>Mouse enter and mouse leave\<close>

text \<open>\<open>Array.prototype.findIndex\<close>: the first index whose element passes, or \<open>-1\<close>.\<close>

fun findIndex :: "('a \<Rightarrow> bool) \<Rightarrow> 'a list \<Rightarrow> int" where
  "findIndex P [] = - 1"
| "findIndex P (x # xs) =
     (if P x then 0 else (let k = findIndex P xs in if k < 0 then - 1 else k + 1))"

text \<open>\<open>if (mouseLeaveTimeout) clearTimeout(mouseLeaveTimeout)\<close>: a timer id of 0 is falsy.\<close>

definition clearPending :: "gallery_state \<Rightarrow> effect list" where
  "clearPending s =
     (case mouseLeaveTimeout s of
        None \<Rightarrow> []
      | Some t \<Rightarrow> if t \<noteq> 0 then [ClearTimeout t] else [])"

definition handleMouseEnter :: "gallery_props \<Rightarrow> gallery_state \<Rightarrow> string \<Rightarrow> effect list" where
  "handleMouseEnter props s uid =
     (let index = findIndex (\<lambda>r. uniqueGuiId r = uid) (data_ref props)
      in clearPending s @ [SetMouseLeaveTimeout (EnterTimer props s uid index) MOUSE_LEAVE_DELAY])"

definition handleMouseLeave :: "gallery_props \<Rightarrow> gallery_state \<Rightarrow> string \<Rightarrow> effect list" where
  "handleMouseLeave props s uid =
     clearPending s @ [SetMouseLeaveTimeout (LeaveTimer props s uid) MOUSE_LEAVE_DELAY]"

text \<open>The bodies of the two \<open>setTimeout\<close> callbacks, run when the timer fires.\<close>

fun timerFires :: "ref_store \<Rightarrow> timer_callback \<Rightarrow> effect list" where
  "timerFires store (EnterTimer props s uid index) =
     (if shouldPlayOnHover props then playKalturaPlayerByUniqueId store s uid None else [])
     @ [SetHoverVideoId (Some index), OnHover (Some index)]"
| "timerFires store (LeaveTimer props s uid) =
     (if shouldPlayOnHover props then pauseKalturaPlayerByUniqueId store s uid else [])
     @ [SetHoverVideoId None]"

subsection \<open>Rendering\<close>

text \<open>
  One rendered gallery item: the container \<open>div\<close> with its key, its \<open>data-index\<close>, whether
  it carries the \<open>highlight\<close> class, the entry it shows, and the ref objects handed to the
  container and to the Player (\<open>None\<close> when the lookup in the ref table is \<open>undefined\<close>).
\<close>

record gallery_item =
  item_key :: string
  item_index :: nat
  item_highlight :: bool
  item_entry :: gallery_ref
  item_containerRef :: "nat option"
  item_playerRef :: "nat option"

definition hasEntryId :: "gallery_ref \<Rightarrow> bool" where
  "hasEntryId r = (entry_id r \<noteq> JNull \<and> entry_id r \<noteq> JStr '''')"

definition render :: "gallery_props \<Rightarrow> gallery_state \<Rightarrow> gallery_item list" where
  "render props s =
     map (\<lambda>(index, r).
            \<lparr> item_key = uniqueGuiId r,
              item_index = index,
              item_highlight = (playingUniqueGuiId s = Some (uniqueGuiId r)),
              item_entry = r,
              item_containerRef = containerRefs s (uniqueGuiId r),
              item_playerRef = playerRefs s (uniqueGuiId r) \<rparr>)
         (enumerate 0 (filter hasEntryId (data_ref props)))"

text \<open>
  The first render starts from the \<open>useState\<close> initial values; the effect on \<open>data.ref\<close>
  then stores the two generated ref tables (\<open>base\<close> is the number of the first ref object
  it creates).
\<close>

definition initial_gallery_state :: gallery_state where
  "initial_gallery_state =
     \<lparr> hoverVideoId = None, playerRefs = Map.empty, containerRefs = Map.empty,
       playingUniqueGuiId = None, mouseLeaveTimeout = None \<rparr>"

definition refsEffect :: "nat \<Rightarrow> gallery_props \<Rightarrow> gallery_state \<Rightarrow> gallery_state" where
  "refsEffect base props s =
     s\<lparr> playerRefs := generateRefs base (data_ref props),
        containerRefs := generateRefs (base + length (data_ref props)) (data_ref props) \<rparr>"

section \<open>The gallery at run time: commits, re-renders and timers\<close>

text \<open>
  A mounted gallery. \<open>w_state\<close> is the committed React state. The two mouse handlers are
  wrapped in \<open>useCallback\<close>: \<open>enterClosure\<close> and \<open>leaveClosure\<close> are the state values the
  currently memoised handlers closed over. \<open>timers\<close> are the pending \<open>setTimeout\<close>
  entries (id, due time, callback), \<open>w_log\<close> the calls that left the component (vendor
  player, DOM, \<open>onHover\<close>), in order, and \<open>refStore\<close> the \<open>current\<close> fields of the ref objects.
\<close>

record world =
  refStore :: ref_store
  w_props :: gallery_props
  w_state :: gallery_state
  enterClosure :: gallery_state
  leaveClosure :: gallery_state
  timers :: "(nat \<times> nat \<times> timer_callback) list"
  clock :: nat
  nextTimer :: nat
  w_log :: "effect list"

fun applyEffect :: "world \<Rightarrow> effect \<Rightarrow> world" where
  "applyEffect w (Vendor p c) = w\<lparr> w_log := w_log w @ [Vendor p c] \<rparr>"
| "applyEffect w (ScrollIntoView c b) = w\<lparr> w_log := w_log w @ [ScrollIntoView c b] \<rparr>"
| "applyEffect w (OnHover i) = w\<lparr> w_log := w_log w @ [OnHover i] \<rparr>"
| "applyEffect w (SetPlayingUniqueGuiId v) =
     w\<lparr> w_state := (w_state w)\<lparr> playingUniqueGuiId := v \<rparr> \<rparr>"
| "applyEffect w (SetHoverVideoId v) =
     w\<lparr> w_state := (w_state w)\<lparr> hoverVideoId := v \<rparr> \<rparr>"
| "applyEffect w (ClearTimeout t) =
     w\<lparr> timers := filter (\<lambda>(i, due, cb). i \<noteq> t) (timers w) \<rparr>"
| "applyEffect w (SetMouseLeaveTimeout cb delay) =
     w\<lparr> timers := timers w @ [(nextTimer w, clock w + delay, cb)],
        w_state := (w_state w)\<lparr> mouseLeaveTimeout := Some (nextTimer w) \<rparr>,
        nextTimer := nextTimer w + 1 \<rparr>"

definition applyEffects :: "effect list \<Rightarrow> world \<Rightarrow> world" where
  "applyEffects es w = foldl applyEffect w es"

text \<open>
  A re-render keeps a memoised handler unless one of its dependencies changed. The props
  of a \<open>world\<close> do not change, so of \<open>[data.ref, mouseLeaveTimeout, shouldPlayOnHover]\<close> and
  \<open>[mouseLeaveTimeout, shouldPlayOnHover]\<close> only \<open>mouseLeaveTimeout\<close> can differ.
\<close>

definition rerender :: "world \<Rightarrow> world" where
  "rerender w =
     w\<lparr> enterClosure :=
          (if mouseLeaveTimeout (enterClosure w) = mouseLeaveTimeout (w_state w)
           then enterClosure w else w_state w),
        leaveClosure :=
          (if mouseLeaveTimeout (leaveClosure w) = mouseLeaveTimeout (w_state w)
           then leaveClosure w else w_state w) \<rparr>"

text \<open>A callback runs; if it called a state setter, the component renders again.\<close>

fun setsState :: "effect \<Rightarrow> bool" where
  "setsState (SetPlayingUniqueGuiId v) = True"
| "setsState (SetHoverVideoId v) = True"
| "setsState (SetMouseLeaveTimeout cb delay) = True"
| "setsState e = False"

definition run :: "effect list \<Rightarrow> world \<Rightarrow> world" where
  "run es w = (if list_ex setsState es then rerender (applyEffects es w) else applyEffects es w)"

definition fireTimer :: "nat \<times> nat \<times> timer_callback \<Rightarrow> world \<Rightarrow> world" where
  "fireTimer t w =
     (case t of (i, due, cb) \<Rightarrow>
        if i \<in> set (map fst (timers w))
        then run (timerFires (refStore w) cb) (w\<lparr> timers := filter (\<lambda>(j, d, c). j \<noteq> i) (timers w) \<rparr>)
        else w)"

text \<open>Time passes: every pending timer that has come due fires, earliest first.\<close>

definition elapse :: "nat \<Rightarrow> world \<Rightarrow> world" where
  "elapse dt w =
     (let w' = w\<lparr> clock := clock w + dt \<rparr>;
          due = sort_key (\<lambda>(i, d, cb). d) (filter (\<lambda>(i, d, cb). d \<le> clock w') (timers w'))
      in fold fireTimer due w')"

text \<open>
  What can happen to a mounted gallery: a pointer event on the item of an identifier, the
  passing of time, or calls by the parent of the two methods of the imperative handle.

  Two elements of an item carry the mouse handlers: the container \<open>div\<close>
  (\<open>onMouseEnter={handleMouseEnter}\<close> in the gallery) and, through the props
  \<open>onMouseEnter\<close> and \<open>onMouseLeave\<close> handed to the Player, the Player's inner \<open>div\<close>,
  which lies inside the container. A pointer event reaches one of them or both:
  \<^item> \<open>MouseEnter\<close>, \<open>MouseLeave\<close>: the pointer crosses the boundary of one of the two
    elements (it enters the container over the title, or moves between the title and
    the player); the handler runs once.
  \<^item> \<open>MouseEnterBoth\<close>, \<open>MouseLeaveBoth\<close>: the pointer crosses both boundaries in one
    event (it moves onto the player from outside the item, or from the player out of
    the item). React calls the handler of each element within one dispatch: the same
    memoised handler runs twice, both runs see the state that handler closed over, and
    what they set is committed together afterwards.

  The imperative handle is rebuilt on every render (\<open>useImperativeHandle\<close> without
  dependencies), so a call reads the state committed by the latest render:
  \<^item> \<open>PlayById\<close>, \<open>PauseById\<close>: the parent makes one call.
  \<^item> \<open>HandleCalls\<close>: the parent makes several calls one after the other inside one event
    handler. The gallery renders again only when that handler has returned, so every
    call is made on the handle of the same render.
\<close>

datatype handle_call =
    PlayCall string "int option"
  | PauseCall string

fun handleCall :: "ref_store \<Rightarrow> gallery_state \<Rightarrow> handle_call \<Rightarrow> effect list" where
  "handleCall store s (PlayCall uid seekTime) = playKalturaPlayerByUniqueId store s uid seekTime"
| "handleCall store s (PauseCall uid) = pauseKalturaPlayerByUniqueId store s uid"

datatype event =
    MouseEnter string
  | MouseLeave string
  | MouseEnterBoth string
  | MouseLeaveBoth string
  | Elapse nat
  | PlayById string "int option"
  | PauseById string
  | HandleCalls "handle_call list"

fun step :: "world \<Rightarrow> event \<Rightarrow> world" where
  "step w (MouseEnter uid) = run (handleMouseEnter (w_props w) (enterClosure w) uid) w"
| "step w (MouseLeave uid) = run (handleMouseLeave (w_props w) (leaveClosure w) uid) w"
| "step w (MouseEnterBoth uid) =
     run (handleMouseEnter (w_props w) (enterClosure w) uid
          @ handleMouseEnter (w_props w) (enterClosure w) uid) w"
| "step w (MouseLeaveBoth uid) =
     run (handleMouseLeave (w_props w) (leaveClosure w) uid
          @ handleMouseLeave (w_props w) (leaveClosure w) uid) w"
| "step w (Elapse dt) = elapse dt w"
| "step w (PlayById uid seekTime) =
     run (playKalturaPlayerByUniqueId (refStore w) (w_state w) uid seekTime) w"
| "step w (PauseById uid) =
     run (pauseKalturaPlayerByUniqueId (refStore w) (w_state w) uid) w"
| "step w (HandleCalls calls) =
     run (concat (map (handleCall (refStore w) (w_state w)) calls)) w"

definition steps :: "world \<Rightarrow> event list \<Rightarrow> world" where
  "steps w evs = foldl step w evs"

section \<open>Player.js: script loading, setup and unmount\<close>

text \<open>
  The React state of one Player, and what a closure created during a render sees of it.
\<close>

record player_state =
  playerInstance :: "nat option"

text \<open>
  A mounted (or formerly mounted) Player: its props, its committed state, whether
  \<open>playerContainerRef.current\<close> is attached, and the state the unmount cleanup closed
  over. The cleanup effect has the dependency list \<open>[]\<close>, so that closure is the one of
  the first render.
\<close>

record player_component =
  pc_props :: kaltura_props
  pc_entryId :: jsval
  pc_state :: player_state
  pc_container :: bool
  pc_cleanup :: player_state

text \<open>
  A script element appended to \<open>document.body\<close>: its \<open>src\<close>, and the Player and render
  state its \<open>onload\<close> handler closed over.
\<close>

record script_element =
  script_src :: string
  script_owner :: nat
  script_closure :: player_state

text \<open>
  The page: the module-level flag, whether \<open>window.KalturaPlayer\<close> is defined, the script
  elements appended so far, the Players by number, the number the next vendor instance
  gets, and the calls made on vendor instances.
\<close>

record page =
  scriptLoadedGlobally :: bool
  kalturaPlayerDefined :: bool
  body_scripts :: "script_element list"
  players :: "nat \<rightharpoonup> player_component"
  nextInstance :: nat
  page_log :: "(nat \<times> vendor_call) list"

definition initial_page :: page where
  "initial_page =
     \<lparr> scriptLoadedGlobally = False, kalturaPlayerDefined = False, body_scripts = [],
       players = Map.empty, nextInstance = 0, page_log = [] \<rparr>"

definition destroyIfAny :: "player_state \<Rightarrow> (nat \<times> vendor_call) list" where
  "destroyIfAny snap = (case playerInstance snap of None \<Rightarrow> [] | Some p \<Rightarrow> [(p, Destroy)])"

text \<open>
  \<open>setupKalturaPlayer\<close>, called from a closure that saw the state \<open>snap\<close>: it reads
  \<open>window.KalturaPlayer\<close> and the container ref as they are now, destroys the instance
  the closure saw, creates a new one, loads the media and stores the instance.
\<close>

definition setupKalturaPlayer :: "nat \<Rightarrow> player_state \<Rightarrow> page \<Rightarrow> page" where
  "setupKalturaPlayer c snap pg =
     (case players pg c of
        None \<Rightarrow> pg
      | Some pc \<Rightarrow>
          if kalturaPlayerDefined pg \<and> pc_container pc
          then pg\<lparr> page_log := page_log pg @ destroyIfAny snap
                       @ [(nextInstance pg, LoadMedia (pc_entryId pc))],
                   nextInstance := nextInstance pg + 1,
                   players := (players pg)(c \<mapsto>
                       pc\<lparr> pc_state := \<lparr> playerInstance = Some (nextInstance pg) \<rparr> \<rparr>) \<rparr>
          else pg)"

text \<open>
  Mounting Player \<open>c\<close>: the first render starts from \<open>useState(null)\<close>, the container ref
  is attached, and the effects run; the script effect either sets the player up or
  appends a script element.
\<close>

definition mountPlayer :: "nat \<Rightarrow> kaltura_props \<Rightarrow> jsval \<Rightarrow> page \<Rightarrow> page" where
  "mountPlayer c props entryId pg =
     (let first = \<lparr> playerInstance = None \<rparr>;
          pg1 = pg\<lparr> players := (players pg)(c \<mapsto>
                       \<lparr> pc_props = props, pc_entryId = entryId, pc_state = first,
                         pc_container = True, pc_cleanup = first \<rparr>) \<rparr>
      in if scriptLoadedGlobally pg1
         then setupKalturaPlayer c first pg1
         else pg1\<lparr> body_scripts := body_scripts pg1
                      @ [\<lparr> script_src = scriptUrl props, script_owner = c,
                           script_closure = first \<rparr>] \<rparr>)"

text \<open>
  The \<open>k\<close>-th appended script has been fetched and run (which defines
  \<open>window.KalturaPlayer\<close>), and its \<open>onload\<close> handler is called.
\<close>

definition scriptOnload :: "nat \<Rightarrow> page \<Rightarrow> page" where
  "scriptOnload k pg =
     (if k < length (body_scripts pg)
      then setupKalturaPlayer (script_owner (body_scripts pg ! k))
             (script_closure (body_scripts pg ! k))
             (pg\<lparr> kalturaPlayerDefined := True, scriptLoadedGlobally := True \<rparr>)
      else pg)"

text \<open>Unmounting Player \<open>c\<close>: the cleanup closure runs and the container ref is detached.\<close>

definition unmountPlayer :: "nat \<Rightarrow> page \<Rightarrow> page" where
  "unmountPlayer c pg =
     (case players pg c of
        None \<Rightarrow> pg
      | Some pc \<Rightarrow>
          pg\<lparr> page_log := page_log pg @ destroyIfAny (pc_cleanup pc),
              players := (players pg)(c \<mapsto> pc\<lparr> pc_container := False \<rparr>) \<rparr>)"

datatype page_event =
    Mount nat kaltura_props jsval
  | ScriptLoaded nat
  | Unmount nat

fun page_step :: "page \<Rightarrow> page_event \<Rightarrow> page" where
  "page_step pg (Mount c props entryId) = mountPlayer c props entryId pg"
| "page_step pg (ScriptLoaded k) = scriptOnload k pg"
| "page_step pg (Unmount c) = unmountPlayer c pg"

definition page_steps :: "page \<Rightarrow> page_event list \<Rightarrow> page" where
  "page_steps pg evs = foldl page_step pg evs"

section \<open>Invariants of the hover timers\<close>

text \<open>
  Two facts hold of a mounted gallery after every event. The handlers are memoised on
  \<open>mouseLeaveTimeout\<close>, so the value they closed over is the committed one. Timer ids are
  positive and handed out in increasing order, so the stored id is positive and was
  handed out before.

  A third fact holds while the handlers run once per pointer event: a handler clears the
  stored timer before it stores a new one, so a pending timer is the stored one. A
  pointer event that reaches both elements of an item breaks it (the first of the two
  timers it arms is never stored); it holds again, whatever happened before, as soon as
  no timer is pending.
\<close>

definition closures_current :: "world \<Rightarrow> bool" where
  "closures_current w =
     (mouseLeaveTimeout (enterClosure w) = mouseLeaveTimeout (w_state w)
      \<and> mouseLeaveTimeout (leaveClosure w) = mouseLeaveTimeout (w_state w))"

definition timer_ids_fresh :: "world \<Rightarrow> bool" where
  "timer_ids_fresh w =
     (0 < nextTimer w
      \<and> (case mouseLeaveTimeout (w_state w) of None \<Rightarrow> True | Some t \<Rightarrow> 0 < t \<and> t < nextTimer w))"


definition pending_is_stored :: "world \<Rightarrow> bool" where
  "pending_is_stored w =
     list_all (\<lambda>(i, due, cb). mouseLeaveTimeout (w_state w) = Some i) (timers w)"

definition hover_invariant :: "world \<Rightarrow> bool" where
  "hover_invariant w = (closures_current w \<and> timer_ids_fresh w \<and> pending_is_stored w)"

section \<open>Sample inputs\<close>

text \<open>Concrete inputs at which the theorems below are evaluated.\<close>

definition sample_props :: kaltura_props where
  "sample_props =
     \<lparr> kalturaServiceUrl = JStr ''https://example.org'', partnerId = JNum 12, uiConfId = JNum 34 \<rparr>"

definition sample_api_ref :: api_ref where
  "sample_api_ref =
     \<lparr> video_transcript_segment = ''welcome to the course'',
       sentence_from_model_answer = ''The course starts with a welcome.'',
       entry_id = JStr ''1_abc'', segment_title = ''Intro'', time = JNum 42 \<rparr>"

text \<open>Two runs of the identifier generator.\<close>

definition uuids_first_run :: "nat \<Rightarrow> string" where
  "uuids_first_run k = ''1b9d6bcd-'' @ string_of_nat k"

definition uuids_second_run :: "nat \<Rightarrow> string" where
  "uuids_second_run k = ''6ec0bd7f-'' @ string_of_nat k"

text \<open>
  A gallery of three entries: \<open>a\<close> has an entry id, \<open>b\<close> has the empty string and \<open>c\<close> has
  \<open>null\<close>.
\<close>

definition sample_ref_a :: gallery_ref where
  "sample_ref_a =
     \<lparr> video_transcript_segment = ''ta'', sentence_from_model_answer = ''sa'',
       entry_id = JStr ''1_abc'', segment_title = ''A'', time = JNum 42,
       entry_thumbnail = ''https://example.org/p/12/thumbnail/entry_id/1_abc/vid_sec/42'',
       uniqueGuiId = ''a'' \<rparr>"

definition sample_ref_b :: gallery_ref where
  "sample_ref_b =
     \<lparr> video_transcript_segment = ''tb'', sentence_from_model_answer = ''sb'',
       entry_id = JStr '''', segment_title = ''B'', time = JNum 0,
       entry_thumbnail = ''https://example.org/p/12/thumbnail/entry_id//vid_sec/0'',
       uniqueGuiId = ''b'' \<rparr>"

definition sample_ref_c :: gallery_ref where
  "sample_ref_c =
     \<lparr> video_transcript_segment = ''tc'', sentence_from_model_answer = ''sc'',
       entry_id = JNull, segment_title = ''C'', time = JNum 7,
       entry_thumbnail = ''https://example.org/p/12/thumbnail/entry_id/null/vid_sec/7'',
       uniqueGuiId = ''c'' \<rparr>"

definition sample_gallery_props :: gallery_props where
  "sample_gallery_props =
     \<lparr> data_ref = [sample_ref_a, sample_ref_b, sample_ref_c], shouldPlayOnHover = True \<rparr>"

text \<open>
  The gallery after its refs were generated (player refs 0, 1, 2 and container refs
  3, 4, 5) and the one rendered item, \<open>a\<close>, was attached: its Player holds the vendor
  instance 7 and its container is the DOM element 9.
\<close>

definition sample_state :: gallery_state where
  "sample_state = refsEffect 0 sample_gallery_props initial_gallery_state"

definition sample_playerCurrent :: "nat \<Rightarrow> player_handle option" where
  "sample_playerCurrent a = (if a = 0 then Some (PlayerHandle (Some 7)) else None)"

definition sample_containerCurrent :: "nat \<Rightarrow> nat option" where
  "sample_containerCurrent a = (if a = 3 then Some 9 else None)"

definition sample_store :: ref_store where
  "sample_store =
     \<lparr> playerCurrent = sample_playerCurrent, containerCurrent = sample_containerCurrent \<rparr>"

definition sample_world :: world where
  "sample_world =
     \<lparr> refStore = sample_store, w_props = sample_gallery_props, w_state = sample_state,
       enterClosure = sample_state, leaveClosure = sample_state, timers = [], clock = 0,
       nextTimer = 1, w_log = [] \<rparr>"

text \<open>
  The same gallery right after it was mounted: the memoised handlers are still those of
  the first render, which saw the empty ref tables.
\<close>

definition mounted_world :: world where
  "mounted_world =
     \<lparr> refStore = sample_store, w_props = sample_gallery_props, w_state = sample_state,
       enterClosure = initial_gallery_state, leaveClosure = initial_gallery_state,
       timers = [], clock = 0, nextTimer = 1, w_log = [] \<rparr>"


section \<open>Auxiliary facts\<close>

lemma map_enumerate_snd: "map (\<lambda>(k, r). g r) (enumerate n xs) = map g xs"
  by (induction xs arbitrary: n) simp_all

lemma map_enumerate_fst: "map (\<lambda>(k, r). h k) (enumerate n xs) = map h [n..<n + length xs]"
  by (induction xs arbitrary: n) (simp_all add: upt_rec)

lemma foldl_refs_keeps:
  "acc u \<noteq> None \<Longrightarrow>
   foldl (\<lambda>acc kr. acc(uniqueGuiId (snd kr) \<mapsto> base + fst kr)) acc krs u \<noteq> None"
  by (induction krs arbitrary: acc) simp_all

lemma foldl_refs_allocates:
  "r \<in> set (map snd krs) \<Longrightarrow>
   foldl (\<lambda>acc kr. acc(uniqueGuiId (snd kr) \<mapsto> base + fst kr)) acc krs (uniqueGuiId r) \<noteq> None"
proof (induction krs arbitrary: acc)
  case Nil
  then show ?case by simp
next
  case (Cons kr krs)
  show ?case
  proof (cases "r = snd kr")
    case True
    have "(acc(uniqueGuiId (snd kr) \<mapsto> base + fst kr)) (uniqueGuiId r) \<noteq> None"
      using True by simp
    then show ?thesis
      unfolding foldl_Cons by (rule foldl_refs_keeps)
  next
    case False
    with Cons.prems have "r \<in> set (map snd krs)" by auto
    then show ?thesis
      unfolding foldl_Cons by (rule Cons.IH)
  qed
qed

lemma generateRefs_allocates:
  assumes "r \<in> set refs"
  shows "generateRefs base refs (uniqueGuiId r) \<noteq> None"
proof -
  have "r \<in> set (map snd (enumerate 0 refs))"
    using assms by (simp only: map_snd_enumerate)
  then show ?thesis
    unfolding generateRefs_def case_prod_unfold by (rule foldl_refs_allocates)
qed

lemma applyEffects_Nil [simp]: "applyEffects [] w = w"
  by (simp add: applyEffects_def)

lemma applyEffects_Cons [simp]: "applyEffects (e # es) w = applyEffects es (applyEffect w e)"
  by (simp add: applyEffects_def)

lemma applyEffects_append: "applyEffects (es @ fs) w = applyEffects fs (applyEffects es w)"
  by (simp add: applyEffects_def)

lemma run_Nil [simp]: "run [] w = w"
  by (simp add: run_def)

lemma rerender_fields [simp]:
  "w_state (rerender w) = w_state w" "w_log (rerender w) = w_log w"
  "refStore (rerender w) = refStore w" "timers (rerender w) = timers w"
  "w_props (rerender w) = w_props w" "clock (rerender w) = clock w"
  "nextTimer (rerender w) = nextTimer w"
  by (simp_all add: rerender_def)

lemma unresolved_effects:
  assumes "playerRefCurrent store s uid = None"
  shows "playKalturaPlayerByUniqueId store s uid seekTime = []"
    and "pauseKalturaPlayerByUniqueId store s uid = []"
  using assms
  by (simp_all add: playKalturaPlayerByUniqueId_def pauseKalturaPlayerByUniqueId_def)

lemma sample_tables:
  "playerRefs sample_state ''a'' = Some 0" "containerRefs sample_state ''a'' = Some 3"
  "playerRefs sample_state ''b'' = Some 1" "containerRefs sample_state ''b'' = Some 4"
  "playerRefs sample_state ''x'' = None" "containerRefs sample_state ''x'' = None"
  by (simp_all add: sample_state_def refsEffect_def generateRefs_def sample_gallery_props_def
        sample_ref_a_def sample_ref_b_def sample_ref_c_def initial_gallery_state_def)

lemma sample_current:
  "playerRefCurrent sample_store sample_state ''a'' = Some (PlayerHandle (Some 7))"
  "containerRefCurrent sample_store sample_state ''a'' = Some 9"
  "playerRefCurrent sample_store sample_state ''b'' = None"
  "playerRefCurrent sample_store sample_state ''x'' = None"
  by (simp_all add: playerRefCurrent_def containerRefCurrent_def sample_tables sample_store_def
        sample_playerCurrent_def sample_containerCurrent_def)

lemma initial_fields [simp]:
  "mouseLeaveTimeout initial_gallery_state = None" "hoverVideoId initial_gallery_state = None"
  "playingUniqueGuiId initial_gallery_state = None"
  by (simp_all add: initial_gallery_state_def)

lemma initial_unresolved [simp]:
  "playerRefCurrent store initial_gallery_state uid = None"
  by (simp add: playerRefCurrent_def initial_gallery_state_def)

lemma sample_world_fields [simp]:
  "refStore sample_world = sample_store" "w_state sample_world = sample_state"
  "w_log sample_world = []" "timers sample_world = []" "nextTimer sample_world = 1"
  "clock sample_world = 0" "w_props sample_world = sample_gallery_props"
  "enterClosure sample_world = sample_state" "leaveClosure sample_world = sample_state"
  by (simp_all add: sample_world_def)

lemma sample_state_fields [simp]:
  "playingUniqueGuiId sample_state = None" "hoverVideoId sample_state = None"
  "mouseLeaveTimeout sample_state = None"
  by (simp_all add: sample_state_def refsEffect_def initial_gallery_state_def)

lemma refCurrent_update [simp]:
  "playerRefCurrent store (s\<lparr>mouseLeaveTimeout := t\<rparr>) uid = playerRefCurrent store s uid"
  "playerRefCurrent store (s\<lparr>playingUniqueGuiId := v\<rparr>) uid = playerRefCurrent store s uid"
  "playerRefCurrent store (s\<lparr>hoverVideoId := i\<rparr>) uid = playerRefCurrent store s uid"
  "containerRefCurrent store (s\<lparr>mouseLeaveTimeout := t\<rparr>) uid = containerRefCurrent store s uid"
  "containerRefCurrent store (s\<lparr>playingUniqueGuiId := v\<rparr>) uid = containerRefCurrent store s uid"
  "containerRefCurrent store (s\<lparr>hoverVideoId := i\<rparr>) uid = containerRefCurrent store s uid"
  by (simp_all add: playerRefCurrent_def containerRefCurrent_def)

lemma sample_index_a: "findIndex (\<lambda>r. uniqueGuiId r = ''a'') (data_ref sample_gallery_props) = 0"
  by (simp add: sample_gallery_props_def sample_ref_a_def)

lemma sample_hover [simp]: "shouldPlayOnHover sample_gallery_props"
  by (simp add: sample_gallery_props_def)

lemmas hover_defs = steps_def run_def elapse_def fireTimer_def handleMouseEnter_def
  handleMouseLeave_def clearPending_def rerender_def MOUSE_LEAVE_DELAY_def Let_def
  playKalturaPlayerByUniqueId_def pauseKalturaPlayerByUniqueId_def playKalturaPlayer_def
  pauseKalturaPlayer_def sample_current

lemmas page_defs = page_steps_def mountPlayer_def initial_page_def Let_def scriptOnload_def
  setupKalturaPlayer_def unmountPlayer_def destroyIfAny_def

subsection \<open>The pause-by-identifier step\<close>

lemma pause_step_playing:
  "playingUniqueGuiId (w_state (step w (PauseById uid)))
     = (if playerRefCurrent (refStore w) (w_state w) uid \<noteq> None
           \<and> playingUniqueGuiId (w_state w) = Some uid
        then None else playingUniqueGuiId (w_state w))"
  by (cases "playerRefCurrent (refStore w) (w_state w) uid")
     (simp_all add: pauseKalturaPlayerByUniqueId_def pauseKalturaPlayer_def run_def
        applyEffects_append split: option.splits)

subsection \<open>Arming and firing the hover timer\<close>

lemma clear_stored_timer:
  assumes "list_all (\<lambda>(i, due, cb). m = Some i) ts" and "m = Some t"
  shows "filter (\<lambda>(i, due, cb). i \<noteq> t) ts = []"
  using assms by (induction ts) auto

lemma nothing_pending:
  assumes "list_all (\<lambda>(i, due, cb). None = Some i) ts"
  shows "ts = []"
  using assms by (cases ts) auto

text \<open>
  Under the invariant, either handler leaves exactly one pending timer, the new one, and
  both memoised handlers are rebuilt over the new state.
\<close>

lemma arm_timer:
  assumes inv: "hover_invariant w"
    and closed: "mouseLeaveTimeout s = mouseLeaveTimeout (w_state w)"
  shows "run (clearPending s @ [SetMouseLeaveTimeout cb MOUSE_LEAVE_DELAY]) w
       = w\<lparr> timers := [(nextTimer w, clock w + MOUSE_LEAVE_DELAY, cb)],
            w_state := (w_state w)\<lparr> mouseLeaveTimeout := Some (nextTimer w) \<rparr>,
            nextTimer := nextTimer w + 1,
            enterClosure := (w_state w)\<lparr> mouseLeaveTimeout := Some (nextTimer w) \<rparr>,
            leaveClosure := (w_state w)\<lparr> mouseLeaveTimeout := Some (nextTimer w) \<rparr> \<rparr>"
proof (cases "mouseLeaveTimeout (w_state w)")
  case None
  have "timers w = []"
    using inv None nothing_pending [of "timers w"]
    by (simp add: hover_invariant_def pending_is_stored_def)
  then show ?thesis
    using inv None closed
    by (simp add: run_def clearPending_def rerender_def hover_invariant_def closures_current_def)
next
  case (Some t)
  have pos: "0 < t" and fresh: "t < nextTimer w"
    using inv Some by (simp_all add: hover_invariant_def timer_ids_fresh_def)
  have "filter (\<lambda>(i, due, cb). i \<noteq> t) (timers w) = []"
    using inv Some clear_stored_timer [of "mouseLeaveTimeout (w_state w)" "timers w" t]
    by (simp add: hover_invariant_def pending_is_stored_def)
  then show ?thesis
    using inv Some closed pos fresh
    by (simp add: run_def clearPending_def rerender_def hover_invariant_def closures_current_def)
qed




subsection \<open>What the events preserve\<close>

lemmas invariant_defs = hover_invariant_def closures_current_def timer_ids_fresh_def pending_is_stored_def















text \<open>The events on which the handler runs once, and single calls, preserve all three.\<close>

lemma invariant_play:
  "hover_invariant w \<Longrightarrow> hover_invariant (run (playKalturaPlayerByUniqueId store s uid seekTime) w)"
  by (auto simp: invariant_defs run_def rerender_def playKalturaPlayerByUniqueId_def
        playKalturaPlayer_def applyEffects_append split: option.splits)

lemma invariant_pause:
  "hover_invariant w \<Longrightarrow> hover_invariant (run (pauseKalturaPlayerByUniqueId store s uid) w)"
  by (auto simp: invariant_defs run_def rerender_def pauseKalturaPlayerByUniqueId_def
        pauseKalturaPlayer_def applyEffects_append split: option.splits)

lemma invariant_timerFires:
  "hover_invariant w \<Longrightarrow> hover_invariant (run (timerFires store cb) w)"
  by (cases cb)
     (auto simp: invariant_defs run_def rerender_def playKalturaPlayerByUniqueId_def
        playKalturaPlayer_def pauseKalturaPlayerByUniqueId_def
        pauseKalturaPlayer_def applyEffects_append split: option.splits)

lemma invariant_fireTimer:
  assumes "hover_invariant w"
  shows "hover_invariant (fireTimer t w)"
proof -
  obtain i due cb where t: "t = (i, due, cb)"
    by (cases t) auto
  have "hover_invariant (w\<lparr> timers := filter (\<lambda>(j, d, c). j \<noteq> i) (timers w) \<rparr>)"
    using assms by (auto simp: invariant_defs list_all_iff split: option.splits)
  then show ?thesis
    using assms invariant_timerFires by (simp add: fireTimer_def t del: timerFires.simps)
qed

lemma invariant_fold_fireTimer:
  "hover_invariant w \<Longrightarrow> hover_invariant (fold fireTimer ts w)"
  by (induction ts arbitrary: w) (simp_all add: invariant_fireTimer)

lemma invariant_step_single:
  assumes "hover_invariant w"
  shows "hover_invariant (step w (MouseEnter uid))"
    and "hover_invariant (step w (MouseLeave uid))"
    and "hover_invariant (step w (Elapse dt))"
    and "hover_invariant (step w (PlayById uid seekTime))"
    and "hover_invariant (step w (PauseById uid))"
proof -
  show "hover_invariant (step w (MouseEnter uid))"
    using assms arm_timer [OF assms, of "enterClosure w"]
    by (simp add: handleMouseEnter_def) (simp add: invariant_defs)
  show "hover_invariant (step w (MouseLeave uid))"
    using assms arm_timer [OF assms, of "leaveClosure w"]
    by (simp add: handleMouseLeave_def) (simp add: invariant_defs)
  have "hover_invariant (w\<lparr> clock := clock w + dt \<rparr>)"
    using assms by (simp add: invariant_defs split: option.splits)
  then show "hover_invariant (step w (Elapse dt))"
    by (simp add: elapse_def Let_def invariant_fold_fireTimer)
  show "hover_invariant (step w (PlayById uid seekTime))"
    using assms by (simp add: invariant_play)
  show "hover_invariant (step w (PauseById uid))"
    using assms by (simp add: invariant_pause)
qed



text \<open>
  A pointer event that reaches both elements of an item arms two timers and stores the
  second: the first stays pending and nothing can clear it. If the pointer then leaves
  before the delay has passed, the unstored enter timer still fires: here the item is
  played, highlighted and reported to \<open>onHover\<close>, and then paused by each of the two leave
  timers.
\<close>

lemma both_elements_break_pending_is_stored:
  "map fst (timers (step sample_world (MouseEnterBoth ''a''))) = [1, 2]
   \<and> mouseLeaveTimeout (w_state (step sample_world (MouseEnterBoth ''a''))) = Some 2
   \<and> \<not> hover_invariant (step sample_world (MouseEnterBoth ''a''))"
  by (simp add: hover_defs invariant_defs)

lemma both_elements_early_leave:
  "w_log (steps sample_world
       [MouseEnterBoth ''a'', Elapse 50, MouseLeaveBoth ''a'', Elapse 100])
     = [Vendor 7 Play, ScrollIntoView 9 ''smooth'', OnHover (Some 0), Vendor 7 Pause, Vendor 7 Pause]"
  by (simp add: hover_defs sample_index_a)

text \<open>
  When the gallery renders between a play and a pause of an identifier that resolves, the
  pause sees the recorded identifier and clears it.
\<close>

lemma pause_after_committed_play:
  assumes resolves: "playerRefCurrent (refStore w) (w_state w) uid \<noteq> None"
  shows "playingUniqueGuiId (w_state (steps w [PlayById uid seekTime, PauseById uid])) = None"
proof -
  obtain h where h: "playerRefCurrent (refStore w) (w_state w) uid = Some h"
    using resolves by auto
  define w1 where "w1 = step w (PlayById uid seekTime)"
  have st: "playingUniqueGuiId (w_state w1) = Some uid"
    and store: "refStore w1 = refStore w"
    and tab: "playerRefs (w_state w1) = playerRefs (w_state w)"
    using h
    by (simp_all add: w1_def playKalturaPlayerByUniqueId_def playKalturaPlayer_def run_def
          applyEffects_append split: option.splits)
  have "playerRefCurrent (refStore w1) (w_state w1) uid = Some h"
    using h by (simp add: playerRefCurrent_def store tab)
  then have "playingUniqueGuiId (w_state (step w1 (PauseById uid))) = None"
    using pause_step_playing [of w1 uid] st by simp
  then show ?thesis
    by (simp add: steps_def w1_def)
qed

subsection \<open>The page: closures of the first render\<close>

lemma page_steps_snoc: "page_steps pg (evs @ [e]) = page_step (page_steps pg evs) e"
  by (simp add: page_steps_def)

lemma setup_keeps_cleanup:
  assumes "\<forall>c pc. players pg c = Some pc \<longrightarrow> playerInstance (pc_cleanup pc) = None"
  shows "\<forall>c pc. players (setupKalturaPlayer k snap pg) c = Some pc
            \<longrightarrow> playerInstance (pc_cleanup pc) = None"
  using assms by (auto simp: setupKalturaPlayer_def split: option.splits if_splits)

lemma page_step_keeps_cleanup:
  assumes "\<forall>c pc. players pg c = Some pc \<longrightarrow> playerInstance (pc_cleanup pc) = None"
  shows "\<forall>c pc. players (page_step pg e) c = Some pc \<longrightarrow> playerInstance (pc_cleanup pc) = None"
proof (cases e)
  case (Mount k props entryId)
  define pg1 where "pg1 = pg\<lparr> players := (players pg)(k \<mapsto>
                       \<lparr> pc_props = props, pc_entryId = entryId,
                         pc_state = \<lparr> playerInstance = None \<rparr>,
                         pc_container = True, pc_cleanup = \<lparr> playerInstance = None \<rparr> \<rparr>) \<rparr>"
  have inv1: "\<forall>c pc. players pg1 c = Some pc \<longrightarrow> playerInstance (pc_cleanup pc) = None"
    using assms by (auto simp: pg1_def)
  show ?thesis
  proof (cases "scriptLoadedGlobally pg")
    case True
    then have "page_step pg e = setupKalturaPlayer k \<lparr> playerInstance = None \<rparr> pg1"
      by (simp add: Mount mountPlayer_def pg1_def Let_def)
    then show ?thesis
      using setup_keeps_cleanup [OF inv1] by simp
  next
    case False
    then have "players (page_step pg e) = players pg1"
      by (simp add: Mount mountPlayer_def pg1_def Let_def)
    then show ?thesis
      using inv1 by simp
  qed
next
  case (ScriptLoaded k)
  have loaded: "\<forall>c pc. players (pg\<lparr> kalturaPlayerDefined := True, scriptLoadedGlobally := True \<rparr>) c = Some pc
          \<longrightarrow> playerInstance (pc_cleanup pc) = None"
    using assms by simp
  show ?thesis
  proof (cases "k < length (body_scripts pg)")
    case True
    then have "page_step pg e = setupKalturaPlayer (script_owner (body_scripts pg ! k))
             (script_closure (body_scripts pg ! k))
             (pg\<lparr> kalturaPlayerDefined := True, scriptLoadedGlobally := True \<rparr>)"
      by (simp add: ScriptLoaded scriptOnload_def)
    then show ?thesis
      using setup_keeps_cleanup [OF loaded] by simp
  next
    case False
    then show ?thesis
      using assms by (simp add: ScriptLoaded scriptOnload_def)
  qed
next
  case (Unmount k)
  then show ?thesis
    using assms by (auto simp: unmountPlayer_def split: option.splits if_splits)
qed

lemma cleanup_closure_null:
  "\<forall>c pc. players (page_steps initial_page evs) c = Some pc \<longrightarrow> playerInstance (pc_cleanup pc) = None"
proof (induction evs rule: rev_induct)
  case Nil
  then show ?case by (simp add: page_steps_def initial_page_def)
next
  case (snoc e evs)
  then show ?case
    unfolding page_steps_snoc by (rule page_step_keeps_cleanup)
qed

lemma unmount_calls_nothing:
  "page_log (page_steps initial_page (evs @ [Unmount c])) = page_log (page_steps initial_page evs)"
  using cleanup_closure_null [of evs]
  by (auto simp: page_steps_snoc unmountPlayer_def destroyIfAny_def split: option.splits)

lemma mount_before_load:
  assumes "\<not> scriptLoadedGlobally pg"
  shows "\<not> scriptLoadedGlobally (mountPlayer c props entryId pg)"
    and "body_scripts (mountPlayer c props entryId pg)
          = body_scripts pg @ [\<lparr> script_src = scriptUrl props, script_owner = c,
                                  script_closure = \<lparr> playerInstance = None \<rparr> \<rparr>]"
  using assms by (simp_all add: mountPlayer_def Let_def)

lemma mounts_before_load:
  assumes "\<not> scriptLoadedGlobally pg"
  shows "\<not> scriptLoadedGlobally (page_steps pg (map (\<lambda>c. Mount c props entryId) cs))
       \<and> map script_src (body_scripts (page_steps pg (map (\<lambda>c. Mount c props entryId) cs)))
          = map script_src (body_scripts pg) @ replicate (length cs) (scriptUrl props)"
  using assms
proof (induction cs arbitrary: pg)
  case Nil
  then show ?case by (simp add: page_steps_def)
next
  case (Cons c cs)
  have step: "page_steps pg (map (\<lambda>c. Mount c props entryId) (c # cs))
        = page_steps (mountPlayer c props entryId pg) (map (\<lambda>c. Mount c props entryId) cs)"
    by (simp add: page_steps_def)
  show ?case
    unfolding step
    using Cons.IH [of "mountPlayer c props entryId pg"] mount_before_load [OF Cons.prems, of c props entryId]
    by (simp add: replicate_append_same)
qed

section \<open>The claims\<close>

subsection \<open>C1: loading the vendor script\<close>

text \<open>
  Claim C1 says that only the first Player that needs the vendor script appends a script
  element and that every later Player finds the flag set and skips the load. The flag is
  set in the \<open>onload\<close> handler, not when the element is appended: two Players mounted
  before the first script has loaded (the Players of one gallery mount in one commit) each
  append a script element with the same \<open>src\<close>, and the flag is still unset after both
  mounts. In general, of any number of Players mounted on a fresh page before a script
  has loaded, each appends a script element.
\<close>

theorem two_mounts_before_load_append_two_scripts:
  "map script_src (body_scripts (page_steps initial_page
       [Mount 1 sample_props (JStr ''1_abc''), Mount 2 sample_props (JStr ''1_def'')]))
     = [scriptUrl sample_props, scriptUrl sample_props]
   \<and> \<not> scriptLoadedGlobally (page_steps initial_page
       [Mount 1 sample_props (JStr ''1_abc''), Mount 2 sample_props (JStr ''1_def'')])
   \<and> map script_src (body_scripts (page_steps initial_page (map (\<lambda>c. Mount c props entryId) cs)))
     = replicate (length cs) (scriptUrl props)"
proof -
  have fresh: "\<not> scriptLoadedGlobally initial_page" "body_scripts initial_page = []"
    by (simp_all add: initial_page_def)
  have "map script_src (body_scripts (page_steps initial_page (map (\<lambda>c. Mount c props entryId) cs)))
     = replicate (length cs) (scriptUrl props)"
    using mounts_before_load [OF fresh(1), of props entryId cs] fresh(2) by simp
  then show ?thesis
    by (simp add: page_defs)
qed

subsection \<open>C2: destroying the live instance on unmount\<close>

text \<open>
  Claim C2 says that unmounting a Player that holds a live vendor instance calls
  \<open>destroy\<close> on it. The cleanup is registered by an effect with the dependency list \<open>[]\<close>,
  so it tests the \<open>playerInstance\<close> of the first render, which is \<open>null\<close>: a Player is
  mounted, its script loads and the setup stores the live instance 0, and the unmount
  then makes no call at all; the only call the instance ever received is \<open>loadMedia\<close>.
  In general, after any sequence of mounts, script loads and unmounts, an unmount makes no
  call on any vendor instance.
\<close>

theorem unmount_after_setup_destroys_nothing:
  "map_option pc_state (players (page_steps initial_page
       [Mount 1 sample_props (JStr ''1_abc''), ScriptLoaded 0]) 1)
     = Some \<lparr> playerInstance = Some 0 \<rparr>
   \<and> page_log (page_steps initial_page
       [Mount 1 sample_props (JStr ''1_abc''), ScriptLoaded 0, Unmount 1])
     = [(0, LoadMedia (JStr ''1_abc''))]
   \<and> page_log (page_steps initial_page (evs @ [Unmount c])) = page_log (page_steps initial_page evs)"
  using unmount_calls_nothing [of evs c] by (simp add: page_defs)

subsection \<open>C3: play by identifier\<close>

text \<open>
  Claim C3: when the identifier resolves to a live handle (the ref of its Player holds a
  handle over a vendor instance \<open>p\<close>, and the ref of its container holds the element \<open>c\<close>),
  \<open>playKalturaPlayerByUniqueId\<close> seeks (if a seek time is given) and then plays on \<open>p\<close>,
  records the identifier as the playing one, and asks \<open>c\<close> to scroll into view with
  smooth behaviour; nothing else is done.
\<close>

theorem playById_live_handle:
  assumes "playerRefCurrent (refStore w) (w_state w) uid = Some h"
      and "handle_playerInstance h = Some p"
      and "containerRefCurrent (refStore w) (w_state w) uid = Some c"
  shows "playKalturaPlayerByUniqueId (refStore w) (w_state w) uid seekTime
           = (case seekTime of None \<Rightarrow> [] | Some t \<Rightarrow> [Vendor p (SetCurrentTime t)])
             @ [Vendor p Play, SetPlayingUniqueGuiId (Some uid), ScrollIntoView c ''smooth'']
         \<and> w_log (step w (PlayById uid seekTime))
           = w_log w @ (case seekTime of None \<Rightarrow> [] | Some t \<Rightarrow> [Vendor p (SetCurrentTime t)])
             @ [Vendor p Play, ScrollIntoView c ''smooth'']
         \<and> playingUniqueGuiId (w_state (step w (PlayById uid seekTime))) = Some uid"
proof -
  have eff: "playKalturaPlayerByUniqueId (refStore w) (w_state w) uid seekTime
           = (case seekTime of None \<Rightarrow> [] | Some t \<Rightarrow> [Vendor p (SetCurrentTime t)])
             @ [Vendor p Play, SetPlayingUniqueGuiId (Some uid), ScrollIntoView c ''smooth'']"
    using assms by (simp add: playKalturaPlayerByUniqueId_def playKalturaPlayer_def)
  show ?thesis
    unfolding step.simps eff
    by (cases seekTime) (simp_all add: run_def)
qed

theorem playById_live_handle_witness:
  "playerRefCurrent (refStore sample_world) (w_state sample_world) ''a'' = Some (PlayerHandle (Some 7))
   \<and> handle_playerInstance (PlayerHandle (Some 7)) = Some 7
   \<and> containerRefCurrent (refStore sample_world) (w_state sample_world) ''a'' = Some 9
   \<and> w_log (step sample_world (PlayById ''a'' (Some 42)))
       = [Vendor 7 (SetCurrentTime 42), Vendor 7 Play, ScrollIntoView 9 ''smooth'']
   \<and> playingUniqueGuiId (w_state (step sample_world (PlayById ''a'' (Some 42)))) = Some ''a''"
  using playById_live_handle [of sample_world "''a''" "PlayerHandle (Some 7)" 7 9 "Some 42"]
  by (simp add: sample_current run_def)

subsection \<open>C4: play followed by pause\<close>

text \<open>
  Claim C4 says that a play followed immediately by a pause of the same identifier leaves
  no playing identifier. \<open>pauseKalturaPlayerByUniqueId\<close> compares its argument with the
  \<open>playingUniqueGuiId\<close> of the render that created it, and a play made just before on the
  same render has only called the setter. So when the parent plays and then pauses \<open>a\<close>
  inside one event handler, on a gallery where nothing is playing, the Player of \<open>a\<close> is
  played, scrolled to and paused, and \<open>a\<close> stays recorded as playing. The hover timers show
  the same: the leave handler was created before the enter timer recorded \<open>a\<close>, so after
  the pointer has entered, stayed and left, and both timers have fired, \<open>a\<close> is paused and
  still recorded. In general, after a play and a pause of an identifier on one render,
  the recorded identifier is as it was if the identifier resolves to no handle, is cleared
  if the identifier was already the recorded one, and is the identifier otherwise.
\<close>

theorem play_then_pause_on_one_render_keeps_id:
  "playingUniqueGuiId (w_state (step sample_world
       (HandleCalls [PlayCall ''a'' None, PauseCall ''a'']))) = Some ''a''
   \<and> w_log (step sample_world (HandleCalls [PlayCall ''a'' None, PauseCall ''a'']))
     = [Vendor 7 Play, ScrollIntoView 9 ''smooth'', Vendor 7 Pause]
   \<and> playingUniqueGuiId (w_state (steps sample_world
         [MouseEnter ''a'', Elapse 100, MouseLeave ''a'', Elapse 100])) = Some ''a''
   \<and> playingUniqueGuiId (w_state (step w (HandleCalls [PlayCall uid seekTime, PauseCall uid])))
     = (if playerRefCurrent (refStore w) (w_state w) uid = None then playingUniqueGuiId (w_state w)
        else if playingUniqueGuiId (w_state w) = Some uid then None
        else Some uid)"
proof -
  have sample: "playingUniqueGuiId (w_state (step sample_world
       (HandleCalls [PlayCall ''a'' None, PauseCall ''a'']))) = Some ''a''
   \<and> w_log (step sample_world (HandleCalls [PlayCall ''a'' None, PauseCall ''a'']))
     = [Vendor 7 Play, ScrollIntoView 9 ''smooth'', Vendor 7 Pause]"
    by (simp add: hover_defs)
  have hover: "playingUniqueGuiId (w_state (steps sample_world
         [MouseEnter ''a'', Elapse 100, MouseLeave ''a'', Elapse 100])) = Some ''a''"
    by (simp add: hover_defs sample_index_a)
  have general: "playingUniqueGuiId (w_state (step w (HandleCalls [PlayCall uid seekTime, PauseCall uid])))
     = (if playerRefCurrent (refStore w) (w_state w) uid = None then playingUniqueGuiId (w_state w)
        else if playingUniqueGuiId (w_state w) = Some uid then None
        else Some uid)"
  proof (cases "playerRefCurrent (refStore w) (w_state w) uid")
    case None
    then show ?thesis
      by (simp add: unresolved_effects)
  next
    case (Some h)
    then show ?thesis
      by (simp add: playKalturaPlayerByUniqueId_def pauseKalturaPlayerByUniqueId_def
            playKalturaPlayer_def pauseKalturaPlayer_def run_def applyEffects_append
          split: option.splits)
  qed
  show ?thesis
    using sample hover general by simp
qed

subsection \<open>C5: unknown identifiers\<close>

text \<open>
  Claim C5: for an identifier that resolves to no handle (the table has no ref for it, or
  the ref's \<open>current\<close> is \<open>null\<close>), play and pause have no effect at all: no call is made,
  no state setter is called, and the gallery, its playing identifier included, is as it
  was. Both functions are total: there is no path on which they throw.
\<close>

theorem unknown_id_is_noop:
  assumes "playerRefCurrent (refStore w) (w_state w) uid = None"
  shows "playKalturaPlayerByUniqueId (refStore w) (w_state w) uid seekTime = []
         \<and> pauseKalturaPlayerByUniqueId (refStore w) (w_state w) uid = []
         \<and> step w (PlayById uid seekTime) = w
         \<and> step w (PauseById uid) = w"
  using assms by (simp add: unresolved_effects)

theorem unknown_id_is_noop_witness:
  "playerRefCurrent (refStore sample_world) (w_state sample_world) ''x'' = None
   \<and> step sample_world (PlayById ''x'' None) = sample_world
   \<and> step sample_world (PauseById ''x'') = sample_world"
  using unknown_id_is_noop [of sample_world "''x''" None]
  by (simp add: sample_current)

subsection \<open>C6: the vendor script URL\<close>

text \<open>
  Claim C6 says that the script URL starts with the configured service URL and that the
  default is used only when none is configured. The test of the conditional is inverted:
  with the service URL \<open>https://example.org\<close> configured, the script URL starts with the
  default URL, and it is not the URL the claim gives.
\<close>

theorem scriptUrl_ignores_configured_url:
  "scriptUrl sample_props = ''https://cdnapi-ev.kaltura.com/p/12/embedPlaykitJs/uiconf_id/34''
   \<and> scriptUrl sample_props \<noteq> ''https://example.org/p/12/embedPlaykitJs/uiconf_id/34''"
  by code_simp

subsection \<open>C7: when the leave timer fires\<close>

text \<open>
  Claim C7 says that the firing leave timer pauses the hovered entry, clears the highlight
  index and calls the hover callback with \<open>null\<close>. The callback is never called by the
  leave timer. On a gallery whose handlers have seen the ref tables: after the pointer has
  entered item \<open>a\<close>, stayed, left and the leave timer has fired, the calls made are the
  play, the scroll, \<open>onHover(0)\<close> from the enter timer and the pause; the highlight index
  is cleared; and no firing of a leave timer, whatever the props, the state and the
  identifier, contains a call of \<open>onHover\<close> with \<open>null\<close>. On a gallery that was just
  mounted the enter timer still holds the empty ref table of the first render, so its
  play does nothing, and the calls made are \<open>onHover(0)\<close> and the pause.
\<close>

theorem leave_timer_never_calls_onHover:
  "w_log (steps sample_world [MouseEnter ''a'', Elapse 100, MouseLeave ''a'', Elapse 100])
     = [Vendor 7 Play, ScrollIntoView 9 ''smooth'', OnHover (Some 0), Vendor 7 Pause]
   \<and> hoverVideoId (w_state (steps sample_world
         [MouseEnter ''a'', Elapse 100, MouseLeave ''a'', Elapse 100])) = None
   \<and> OnHover None \<notin> set (timerFires store (LeaveTimer props s uid))
   \<and> w_log (steps mounted_world [MouseEnter ''a'', Elapse 100, MouseLeave ''a'', Elapse 100])
     = [OnHover (Some 0), Vendor 7 Pause]"
proof -
  have seen: "w_log (steps sample_world [MouseEnter ''a'', Elapse 100, MouseLeave ''a'', Elapse 100])
     = [Vendor 7 Play, ScrollIntoView 9 ''smooth'', OnHover (Some 0), Vendor 7 Pause]
   \<and> hoverVideoId (w_state (steps sample_world
         [MouseEnter ''a'', Elapse 100, MouseLeave ''a'', Elapse 100])) = None
   \<and> OnHover None \<notin> set (timerFires store (LeaveTimer props s uid))"
    by (simp add: hover_defs sample_index_a split: option.splits)
  have fresh: "w_log (steps mounted_world [MouseEnter ''a'', Elapse 100, MouseLeave ''a'', Elapse 100])
     = [OnHover (Some 0), Vendor 7 Pause]"
    by (simp add: hover_defs sample_index_a mounted_world_def)
  show ?thesis
    using seen fresh by simp
qed

subsection \<open>C8: entering and leaving before the delay has passed\<close>




subsection \<open>C9: thumbnail URLs and identifiers of the search response\<close>

text \<open>
  Claim C9 says that the thumbnail URL and the identifier of an entry are both functions
  of the response and the configuration. The identifier is the value \<open>uuidv4()\<close> returns:
  the same response under the same configuration gets different identifiers in two runs
  in which the generator returns different values.
\<close>

theorem identifiers_differ_between_runs_counterexample:
  "map uniqueGuiId (processRefs sample_props uuids_first_run [sample_api_ref])
     \<noteq> map uniqueGuiId (processRefs sample_props uuids_second_run [sample_api_ref])"
  by code_simp

text \<open>
  Claim C9, amended. The thumbnail URL of every entry is
  \<open>{serviceBaseUrl}/p/{accountId}/thumbnail/entry_id/{entryId}/vid_sec/{startSeconds}\<close>,
  each part converted as a template literal does; the thumbnail URLs are the same
  whatever the identifier generator returns, so they are a function of the response and
  the configuration alone; and the identifier of the \<open>k\<close>-th entry is the value the
  \<open>k\<close>-th call of the generator returned, whatever the response and the configuration.
\<close>

theorem processRefs_thumbnails_and_identifiers:
  "map entry_thumbnail (processRefs props uuidv4 refs) =
     map (\<lambda>r. template (kalturaServiceUrl props) @ ''/p/'' @ template (partnerId props)
            @ ''/thumbnail/entry_id/'' @ template (entry_id r) @ ''/vid_sec/'' @ template (time r)) refs
   \<and> map entry_thumbnail (processRefs props uuidv4 refs)
       = map entry_thumbnail (processRefs props uuidv4' refs)
   \<and> map uniqueGuiId (processRefs props uuidv4 refs) = map uuidv4 [0..<length refs]"
proof -
  have thumb: "\<And>g. map entry_thumbnail (processRefs props g refs) = map (thumbnailUrl props) refs"
    using map_enumerate_snd [of "thumbnailUrl props" 0 refs]
    by (simp add: processRefs_def decorate_def case_prod_unfold comp_def)
  have ids: "map uniqueGuiId (processRefs props uuidv4 refs) = map uuidv4 [0..<length refs]"
    using map_enumerate_fst [of uuidv4 0 refs]
    by (simp add: processRefs_def decorate_def case_prod_unfold comp_def)
  show ?thesis
    using thumb ids by (simp add: thumbnailUrl_def)
qed

subsection \<open>C10: which entries are rendered\<close>

text \<open>
  Claim C10: the rendered items are, in order, the entries of \<open>data.ref\<close> whose
  \<open>entry_id\<close> is neither \<open>null\<close> nor the empty string, numbered from 0; an entry whose
  \<open>entry_id\<close> is \<open>null\<close> or empty has no item; and the ref tables generated for \<open>data.ref\<close>
  hold a player ref and a container ref for the identifier of every entry, rendered or
  not.
\<close>

theorem render_items_and_refs:
  "map item_entry (render props s)
     = filter (\<lambda>r. entry_id r \<noteq> JNull \<and> entry_id r \<noteq> JStr '''') (data_ref props)
   \<and> map item_index (render props s) = [0..<length (render props s)]
   \<and> (\<forall>r \<in> set (data_ref props).
         (entry_id r = JNull \<or> entry_id r = JStr '''') \<longrightarrow> r \<notin> set (map item_entry (render props s)))
   \<and> (\<forall>r \<in> set (data_ref props).
         playerRefs (refsEffect base props s') (uniqueGuiId r) \<noteq> None
         \<and> containerRefs (refsEffect base props s') (uniqueGuiId r) \<noteq> None)"
proof -
  have filt: "filter hasEntryId (data_ref props)
               = filter (\<lambda>r. entry_id r \<noteq> JNull \<and> entry_id r \<noteq> JStr '''') (data_ref props)"
    by (rule filter_cong) (simp_all add: hasEntryId_def)
  have entries: "map item_entry (render props s) = filter hasEntryId (data_ref props)"
    using map_enumerate_snd [of "\<lambda>r. r" 0 "filter hasEntryId (data_ref props)"]
    by (simp add: render_def case_prod_unfold comp_def)
  have len: "length (render props s) = length (filter hasEntryId (data_ref props))"
    by (simp add: render_def)
  have idx: "map item_index (render props s) = [0..<length (render props s)]"
    using map_enumerate_fst [of "\<lambda>k. k" 0 "filter hasEntryId (data_ref props)"]
    by (simp add: len) (simp add: render_def case_prod_unfold comp_def)
  have none: "\<forall>r \<in> set (data_ref props).
         (entry_id r = JNull \<or> entry_id r = JStr '''') \<longrightarrow> r \<notin> set (map item_entry (render props s))"
    by (auto simp: entries hasEntryId_def)
  have refs: "\<forall>r \<in> set (data_ref props).
         playerRefs (refsEffect base props s') (uniqueGuiId r) \<noteq> None
         \<and> containerRefs (refsEffect base props s') (uniqueGuiId r) \<noteq> None"
    by (simp add: refsEffect_def generateRefs_allocates)
  show ?thesis
    using entries filt idx none refs by simp
qed

theorem render_items_and_refs_witness:
  "sample_ref_b \<in> set (data_ref sample_gallery_props)
   \<and> entry_id sample_ref_b = JStr ''''
   \<and> sample_ref_b \<notin> set (map item_entry (render sample_gallery_props sample_state))
   \<and> playerRefs (refsEffect 0 sample_gallery_props initial_gallery_state) (uniqueGuiId sample_ref_b) \<noteq> None
   \<and> containerRefs (refsEffect 0 sample_gallery_props initial_gallery_state) (uniqueGuiId sample_ref_b) \<noteq> None
   \<and> map item_entry (render sample_gallery_props sample_state) = [sample_ref_a]"
proof -
  have ids: "entry_id sample_ref_a = JStr ''1_abc''" "entry_id sample_ref_b = JStr ''''"
      "entry_id sample_ref_c = JNull"
    by (simp_all add: sample_ref_a_def sample_ref_b_def sample_ref_c_def)
  have refs: "data_ref sample_gallery_props = [sample_ref_a, sample_ref_b, sample_ref_c]"
    by (simp add: sample_gallery_props_def)
  have distinct: "sample_ref_b \<noteq> sample_ref_a"
    by (simp add: sample_ref_a_def sample_ref_b_def)
  show ?thesis
    using render_items_and_refs [where props = sample_gallery_props and s = sample_state
        and base = 0 and s' = initial_gallery_state]
    by (simp add: refs ids distinct)
qed

end
